theory Spec2Isabelle
  imports Complex_Main
begin

section \<open>JavaScript values used by the screening server\<close>

text \<open>
  A JavaScript number is an IEEE double: a finite value, one of the two infinities, or
  NaN. Every finite double is a rational, and the relational operators of the language
  compare finite doubles by their value, so a finite number is carried as a \<open>real\<close>.
  Any comparison that involves NaN is false.
\<close>

datatype jsnum = NaN | NegInf | Fin real | PosInf

fun js_lt :: "jsnum \<Rightarrow> jsnum \<Rightarrow> bool" where
  "js_lt NaN y = False"
| "js_lt x NaN = False"
| "js_lt x NegInf = False"
| "js_lt NegInf y = True"
| "js_lt PosInf y = False"
| "js_lt (Fin a) PosInf = True"
| "js_lt (Fin a) (Fin b) = (a < b)"

fun js_le :: "jsnum \<Rightarrow> jsnum \<Rightarrow> bool" where
  "js_le NaN y = False"
| "js_le x NaN = False"
| "js_le NegInf y = True"
| "js_le x PosInf = True"
| "js_le x NegInf = False"
| "js_le PosInf y = False"
| "js_le (Fin a) (Fin b) = (a \<le> b)"

definition js_gt :: "jsnum \<Rightarrow> jsnum \<Rightarrow> bool" where
  "js_gt x y = js_lt y x"

definition js_ge :: "jsnum \<Rightarrow> jsnum \<Rightarrow> bool" where
  "js_ge x y = js_le y x"

text \<open>
  The mental status of a request body or of a stored document is whatever JSON or BSON
  decoding produced: it may be absent (\<open>undefined\<close>, \<open>null\<close>), a boolean, a number, a
  string, or an object or array. None of the latter has a callable \<open>toLowerCase\<close>.
\<close>

datatype jsval = JUndefined | JNull | JBool bool | JNum jsnum | JStr string | JObject

fun truthy :: "jsval \<Rightarrow> bool" where
  "truthy JUndefined = False"
| "truthy JNull = False"
| "truthy (JBool b) = b"
| "truthy (JNum n) = (n \<noteq> NaN \<and> n \<noteq> Fin 0)"
| "truthy (JStr s) = (s \<noteq> [])"
| "truthy JObject = True"

datatype error = TypeError

text \<open>
  \<open>String.prototype.toLowerCase\<close>, on the ASCII range: the letters \<open>A\<close> to \<open>Z\<close>
  (codes 65 to 90) move to \<open>a\<close> to \<open>z\<close>, every other code is kept. The server only
  compares the result with the literal \<open>alert\<close>, and no character outside ASCII
  lower-cases to one of its letters.
\<close>

definition lowerChar :: "char \<Rightarrow> char" where
  "lowerChar c =
     (let n = (of_char c :: nat) in if 65 \<le> n \<and> n \<le> 90 then char_of (n + 32) else c)"

definition toLowerCase :: "string \<Rightarrow> string" where
  "toLowerCase s = map lowerChar s"

text \<open>
  The method call \<open>v.toLowerCase()\<close> on an arbitrary value: reading a property of
  \<open>undefined\<close> or \<open>null\<close> throws a TypeError, and so does calling the missing method of
  a boolean, a number or a decoded object.
\<close>

fun callToLowerCase :: "jsval \<Rightarrow> error + string" where
  "callToLowerCase (JStr s) = Inr (toLowerCase s)"
| "callToLowerCase v = Inl TypeError"

section \<open>calculateQSOFA\<close>

record observation =
  respiratoryRate :: jsnum
  systolicBP :: jsnum
  mentalStatus :: jsval

record qsofa =
  score :: nat
  riskLabel :: string
  reasons :: "string list"

text \<open>
  The guard of the third criterion, \<open>mentalStatus && mentalStatus.toLowerCase() !== 'alert'\<close>:
  the right operand is evaluated only for a truthy left operand.
\<close>

definition mentalCriterion :: "jsval \<Rightarrow> error + bool" where
  "mentalCriterion v =
     (if truthy v
      then (case callToLowerCase v of Inl e \<Rightarrow> Inl e | Inr l \<Rightarrow> Inr (l \<noteq> ''alert''))
      else Inr False)"

definition calculateQSOFA :: "'a observation_scheme \<Rightarrow> error + qsofa" where
  "calculateQSOFA obs =
     (let score = (0::nat);
          reasons = ([] :: string list);
          (score, reasons) =
            (if js_ge (respiratoryRate obs) (Fin 22)
             then (score + 1, reasons @ [''Respiratory rate at or above 22 breaths/min''])
             else (score, reasons));
          (score, reasons) =
            (if js_le (systolicBP obs) (Fin 100)
             then (score + 1, reasons @ [''Systolic blood pressure at or below 100 mmHg''])
             else (score, reasons))
      in case mentalCriterion (mentalStatus obs) of
           Inl e \<Rightarrow> Inl e
         | Inr altered \<Rightarrow>
             (let (score, reasons) =
                    (if altered
                     then (score + 1, reasons @ [''Altered mental status (not fully alert)''])
                     else (score, reasons));
                  riskLabel = ''Low screening score'';
                  riskLabel = (if score = 1 then ''Intermediate screening score'' else riskLabel);
                  riskLabel = (if score \<ge> 2 then ''High screening score'' else riskLabel)
              in Inr \<lparr>score = score, riskLabel = riskLabel, reasons = reasons\<rparr>))"

section \<open>Trend alerts of the patient summary\<close>

text \<open>
  A stored reading is an observation with its time (milliseconds since the epoch) and
  the result of the scorer at the time it was recorded. The summary handler reads the
  documents back as plain objects and does not score them again.
\<close>

record reading = observation +
  timestamp :: int
  qsofaScore :: jsnum
  qsofaRiskLabel :: string
  qsofaReasons :: "string list"

record alert =
  type :: string
  level :: string
  timestamp :: int
  explanation :: string

text \<open>
  The five object literals pushed by the loop. The first interpolates the two scores into
  a template literal; the conversion of a number to text is the language's own
  \<open>Number::toString\<close>, taken as the parameter \<open>numberToString\<close>.
\<close>

definition alertRiskEscalating :: "(jsnum \<Rightarrow> string) \<Rightarrow> reading \<Rightarrow> reading \<Rightarrow> alert" where
  "alertRiskEscalating numberToString prev cur =
     \<lparr>type = ''Risk escalating'', level = ''warning'',
      timestamp = reading.timestamp cur,
      explanation = ''qSOFA screening score increased from '' @ numberToString (qsofaScore prev)
        @ '' to '' @ numberToString (qsofaScore cur) @ '' between readings.''\<rparr>"

definition alertHighRisk :: "reading \<Rightarrow> alert" where
  "alertHighRisk cur =
     \<lparr>type = ''High risk screening score'', level = ''high'',
      timestamp = reading.timestamp cur,
      explanation = ''qSOFA screening score is at or above 2 based on respiratory rate, blood pressure, and mental status criteria.''\<rparr>"

definition alertRespiratoryRate :: "reading \<Rightarrow> alert" where
  "alertRespiratoryRate cur =
     \<lparr>type = ''Respiratory rate threshold crossed'', level = ''warning'',
      timestamp = reading.timestamp cur,
      explanation = ''Respiratory rate increased above the screening threshold of 22 breaths/min compared to the prior reading.''\<rparr>"

definition alertBloodPressure :: "reading \<Rightarrow> alert" where
  "alertBloodPressure cur =
     \<lparr>type = ''Blood pressure threshold crossed'', level = ''warning'',
      timestamp = reading.timestamp cur,
      explanation = ''Systolic blood pressure dropped to or below the screening threshold of 100 mmHg compared to the prior reading.''\<rparr>"

definition alertMentalStatus :: "reading \<Rightarrow> alert" where
  "alertMentalStatus cur =
     \<lparr>type = ''Change in mental status'', level = ''high'',
      timestamp = reading.timestamp cur,
      explanation = ''Mental status changed from fully alert to an altered state between readings based on recorded input.''\<rparr>"

text \<open>
  The condition of the last rule,
  \<open>prev.mentalStatus.toLowerCase() === 'alert' && curr.mentalStatus.toLowerCase() !== 'alert'\<close>:
  both method calls are unguarded, and the second is made only when the first comparison
  holds.
\<close>

definition mentalStatusChanged :: "reading \<Rightarrow> reading \<Rightarrow> error + bool" where
  "mentalStatusChanged prev cur =
     (case callToLowerCase (mentalStatus prev) of
        Inl e \<Rightarrow> Inl e
      | Inr p \<Rightarrow>
          (if p = ''alert''
           then (case callToLowerCase (mentalStatus cur) of
                   Inl e \<Rightarrow> Inl e
                 | Inr c \<Rightarrow> Inr (c \<noteq> ''alert''))
           else Inr False))"

text \<open>The body of the loop for one pair: the alerts so far go in, the extended list comes out.\<close>

definition pairAlerts :: "(jsnum \<Rightarrow> string) \<Rightarrow> reading \<Rightarrow> reading \<Rightarrow> alert list \<Rightarrow> error + alert list" where
  "pairAlerts numberToString prev cur alerts =
     (let alerts =
            (if js_gt (qsofaScore cur) (qsofaScore prev)
             then alerts @ [alertRiskEscalating numberToString prev cur] else alerts);
          alerts =
            (if js_ge (qsofaScore cur) (Fin 2)
             then alerts @ [alertHighRisk cur] else alerts);
          alerts =
            (if js_ge (respiratoryRate cur) (Fin 22) \<and> js_lt (respiratoryRate prev) (Fin 22)
             then alerts @ [alertRespiratoryRate cur] else alerts);
          alerts =
            (if js_le (systolicBP cur) (Fin 100) \<and> js_gt (systolicBP prev) (Fin 100)
             then alerts @ [alertBloodPressure cur] else alerts)
      in case mentalStatusChanged prev cur of
           Inl e \<Rightarrow> Inl e
         | Inr changed \<Rightarrow>
             Inr (if changed then alerts @ [alertMentalStatus cur] else alerts))"

text \<open>
  \<open>for (let i = 1; i < readings.length; i++)\<close> with \<open>prev = readings[i - 1]\<close> and
  \<open>curr = readings[i]\<close>. An exception leaves the loop and the alerts collected so far
  are lost with it.
\<close>

function trendLoop :: "(jsnum \<Rightarrow> string) \<Rightarrow> reading list \<Rightarrow> nat \<Rightarrow> alert list \<Rightarrow> error + alert list" where
  "trendLoop numberToString readings i alerts =
     (if i < length readings
      then (case pairAlerts numberToString (readings ! (i - 1)) (readings ! i) alerts of
              Inl e \<Rightarrow> Inl e
            | Inr alerts' \<Rightarrow> trendLoop numberToString readings (i + 1) alerts')
      else Inr alerts)"
  by pat_completeness auto
termination
  by (relation "measure (\<lambda>(f, readings, i, alerts). length readings - i)") auto

text \<open>
  The alerts of the summary handler: an empty history answers with no alerts before the
  loop is reached, any other history runs the loop from index 1 on an empty list.
\<close>

definition summaryAlerts :: "(jsnum \<Rightarrow> string) \<Rightarrow> reading list \<Rightarrow> error + alert list" where
  "summaryAlerts numberToString readings =
     (if length readings = 0 then Inr [] else trendLoop numberToString readings 1 [])"

section \<open>Notions of the specification\<close>

text \<open>
  Equality of two labels without regard to case, stated on the characters and without
  the lower-casing function of the code: two characters are the same letter when they are
  equal or when one is an upper-case ASCII letter and the other is 32 codes above it.
\<close>

definition isUpper :: "char \<Rightarrow> bool" where
  "isUpper c = (65 \<le> (of_char c :: nat) \<and> (of_char c :: nat) \<le> 90)"

definition isLower :: "char \<Rightarrow> bool" where
  "isLower c = (97 \<le> (of_char c :: nat) \<and> (of_char c :: nat) \<le> 122)"

definition sameLetter :: "char \<Rightarrow> char \<Rightarrow> bool" where
  "sameLetter a b =
     (a = b \<or> (isUpper a \<and> (of_char b :: nat) = of_char a + 32)
            \<or> (isUpper b \<and> (of_char a :: nat) = of_char b + 32))"

definition equalsIgnoreCase :: "string \<Rightarrow> string \<Rightarrow> bool" where
  "equalsIgnoreCase s t = list_all2 sameLetter s t"

fun isString :: "jsval \<Rightarrow> bool" where
  "isString (JStr s) = True"
| "isString v = False"

fun isAlertLabel :: "jsval \<Rightarrow> bool" where
  "isAlertLabel (JStr s) = equalsIgnoreCase s ''alert''"
| "isAlertLabel v = False"

text \<open>
  The trend derivation as the specification words it: for a pair, the rules in their
  order of declaration, each a condition with its alert; the alerts of a pair are those
  whose condition holds, in that order; the alerts of a history are those of its pairs
  \<open>(readings[i - 1], readings[i])\<close> for \<open>i = 1, ..., n - 1\<close>, one pair after the other.
\<close>

definition pairRules :: "(jsnum \<Rightarrow> string) \<Rightarrow> reading \<Rightarrow> reading \<Rightarrow> (bool \<times> alert) list" where
  "pairRules numberToString prev cur =
     [(js_gt (qsofaScore cur) (qsofaScore prev), alertRiskEscalating numberToString prev cur),
      (js_ge (qsofaScore cur) (Fin 2), alertHighRisk cur),
      (js_ge (respiratoryRate cur) (Fin 22) \<and> js_lt (respiratoryRate prev) (Fin 22),
         alertRespiratoryRate cur),
      (js_le (systolicBP cur) (Fin 100) \<and> js_gt (systolicBP prev) (Fin 100),
         alertBloodPressure cur),
      (isAlertLabel (mentalStatus prev) \<and> \<not> isAlertLabel (mentalStatus cur),
         alertMentalStatus cur)]"

definition firedAlerts :: "(jsnum \<Rightarrow> string) \<Rightarrow> reading \<Rightarrow> reading \<Rightarrow> alert list" where
  "firedAlerts numberToString prev cur = map snd (filter fst (pairRules numberToString prev cur))"

definition alertsByPair :: "(jsnum \<Rightarrow> string) \<Rightarrow> reading list \<Rightarrow> alert list" where
  "alertsByPair numberToString readings =
     concat (map (\<lambda>i. firedAlerts numberToString (readings ! (i - 1)) (readings ! i))
                 [1..<length readings])"

definition ofType :: "string \<Rightarrow> alert list \<Rightarrow> alert list" where
  "ofType t alerts = filter (\<lambda>a. type a = t) alerts"

text \<open>
  A printer of numbers for running the definitions on examples. It agrees with
  \<open>Number::toString\<close> on NaN, on the infinities and on whole numbers below \<open>10^21\<close> in
  absolute value, which covers every score the scorer produces. It drops the fractional
  digits of other numbers, which the language does not; the theorems below hold for
  every printer and use this one only at whole numbers.
\<close>

function decimalDigits :: "nat \<Rightarrow> string" where
  "decimalDigits n =
     (if n < 10 then [char_of (48 + n)]
      else decimalDigits (n div 10) @ [char_of (48 + n mod 10)])"
  by pat_completeness auto
termination
  by (relation "measure (\<lambda>n. n)") auto

definition wholeNumberToString :: "jsnum \<Rightarrow> string" where
  "wholeNumberToString x =
     (case x of
        NaN \<Rightarrow> ''NaN''
      | NegInf \<Rightarrow> ''-Infinity''
      | PosInf \<Rightarrow> ''Infinity''
      | Fin r \<Rightarrow> (if r < 0 then ''-'' else []) @ decimalDigits (nat \<lfloor>\<bar>r\<bar>\<rfloor>))"

section \<open>Auxiliary facts\<close>

subsection \<open>Lower-casing and equality without regard to case\<close>

lemma lowerChar_sameLetter:
  assumes "97 \<le> (of_char b :: nat)" "(of_char b :: nat) \<le> 122"
  shows "lowerChar a = b \<longleftrightarrow> sameLetter a b"
proof -
  have eq: "a = b \<longleftrightarrow> (of_char a :: nat) = of_char b" by simp
  show ?thesis
  proof (cases "65 \<le> (of_char a :: nat) \<and> (of_char a :: nat) \<le> 90")
    case True
    then have "lowerChar a = char_of ((of_char a :: nat) + 32)"
      by (simp add: lowerChar_def)
    moreover have "char_of ((of_char a :: nat) + 32) = b \<longleftrightarrow> (of_char a :: nat) + 32 = of_char b"
      using True by (simp add: char_of_eq_iff take_bit_eq_mod)
    ultimately show ?thesis
      using True assms eq by (auto simp: sameLetter_def isUpper_def)
  next
    case False
    then have "lowerChar a = a"
      by (auto simp: lowerChar_def)
    then show ?thesis
      using False assms eq by (auto simp: sameLetter_def isUpper_def)
  qed
qed

lemma toLowerCase_equalsIgnoreCase:
  "list_all isLower t \<Longrightarrow> toLowerCase s = t \<longleftrightarrow> equalsIgnoreCase s t"
proof (induction s arbitrary: t)
  case Nil
  then show ?case by (auto simp: toLowerCase_def equalsIgnoreCase_def)
next
  case (Cons a s)
  show ?case
  proof (cases t)
    case Nil
    then show ?thesis by (simp add: toLowerCase_def equalsIgnoreCase_def)
  next
    case (Cons b t')
    with Cons.prems have b: "97 \<le> (of_char b :: nat)" "(of_char b :: nat) \<le> 122"
      by (simp_all add: isLower_def)
    from Cons Cons.prems have t': "list_all isLower t'"
      by simp
    from Cons.IH [OF t'] lowerChar_sameLetter [OF b, of a] Cons show ?thesis
      by (simp add: toLowerCase_def equalsIgnoreCase_def)
  qed
qed

lemma toLowerCase_alert: "toLowerCase s = ''alert'' \<longleftrightarrow> equalsIgnoreCase s ''alert''"
  by (rule toLowerCase_equalsIgnoreCase) (simp add: isLower_def)

subsection \<open>The loop over adjacent pairs\<close>

lemma mentalCriterion_string:
  "mentalCriterion (JStr s) = Inr (s \<noteq> [] \<and> \<not> equalsIgnoreCase s ''alert'')"
  by (simp add: mentalCriterion_def toLowerCase_alert)

lemma mentalStatusChanged_strings:
  "isString (mentalStatus prev) \<Longrightarrow> isString (mentalStatus cur) \<Longrightarrow>
   mentalStatusChanged prev cur =
     Inr (isAlertLabel (mentalStatus prev) \<and> \<not> isAlertLabel (mentalStatus cur))"
  by (cases "mentalStatus prev"; cases "mentalStatus cur")
     (simp_all add: mentalStatusChanged_def toLowerCase_alert)

lemma pairAlerts_strings:
  "isString (mentalStatus prev) \<Longrightarrow> isString (mentalStatus cur) \<Longrightarrow>
   pairAlerts f prev cur acc = Inr (acc @ firedAlerts f prev cur)"
  by (simp add: pairAlerts_def mentalStatusChanged_strings firedAlerts_def pairRules_def Let_def)

lemma trendLoop_strings:
  "\<forall>r \<in> set readings. isString (mentalStatus r) \<Longrightarrow> 0 < i \<Longrightarrow>
   trendLoop f readings i acc =
     Inr (acc @ concat (map (\<lambda>j. firedAlerts f (readings ! (j - 1)) (readings ! j))
                            [i..<length readings]))"
proof (induction f readings i acc rule: trendLoop.induct)
  case (1 f readings i alerts)
  show ?case
  proof (cases "i < length readings")
    case False
    then show ?thesis by simp
  next
    case True
    with "1.prems" have str: "isString (mentalStatus (readings ! (i - 1)))"
        "isString (mentalStatus (readings ! i))"
      by simp_all
    have step: "pairAlerts f (readings ! (i - 1)) (readings ! i) alerts =
        Inr (alerts @ firedAlerts f (readings ! (i - 1)) (readings ! i))"
      by (rule pairAlerts_strings [OF str])
    have "trendLoop f readings (i + 1) (alerts @ firedAlerts f (readings ! (i - 1)) (readings ! i)) =
      Inr ((alerts @ firedAlerts f (readings ! (i - 1)) (readings ! i)) @
           concat (map (\<lambda>j. firedAlerts f (readings ! (j - 1)) (readings ! j))
                            [i + 1..<length readings]))"
      using "1.IH" [OF True step] "1.prems" by simp
    moreover have "[i..<length readings] = i # [i + 1..<length readings]"
      using True by (simp add: upt_conv_Cons)
    ultimately show ?thesis
      using True step by (simp del: trendLoop.simps add: trendLoop.simps [of f readings i alerts])
  qed
qed

lemma summaryAlerts_strings:
  "\<forall>r \<in> set readings. isString (mentalStatus r) \<Longrightarrow>
   summaryAlerts f readings = Inr (alertsByPair f readings)"
  by (cases readings) (simp_all add: summaryAlerts_def alertsByPair_def trendLoop_strings del: trendLoop.simps)


lemma type_alert [simp]:
  "type (alertRiskEscalating f prev cur) = ''Risk escalating''"
  "type (alertHighRisk cur) = ''High risk screening score''"
  "type (alertRespiratoryRate cur) = ''Respiratory rate threshold crossed''"
  "type (alertBloodPressure cur) = ''Blood pressure threshold crossed''"
  "type (alertMentalStatus cur) = ''Change in mental status''"
  by (simp_all add: alertRiskEscalating_def alertHighRisk_def alertRespiratoryRate_def
        alertBloodPressure_def alertMentalStatus_def)

lemma ofType_append: "ofType t (xs @ ys) = ofType t xs @ ofType t ys"
  by (simp add: ofType_def)

lemma ofType_highRisk_fired:
  "ofType ''High risk screening score'' (firedAlerts f prev cur) =
     (if js_ge (qsofaScore cur) (Fin 2) then [alertHighRisk cur] else [])"
  by (simp add: ofType_def firedAlerts_def pairRules_def)

lemma ofType_respiratoryRate_fired:
  "ofType ''Respiratory rate threshold crossed'' (firedAlerts f prev cur) =
     (if js_ge (respiratoryRate cur) (Fin 22) \<and> js_lt (respiratoryRate prev) (Fin 22)
      then [alertRespiratoryRate cur] else [])"
  by (simp add: ofType_def firedAlerts_def pairRules_def)

lemma ofType_bloodPressure_fired:
  "ofType ''Blood pressure threshold crossed'' (firedAlerts f prev cur) =
     (if js_le (systolicBP cur) (Fin 100) \<and> js_gt (systolicBP prev) (Fin 100)
      then [alertBloodPressure cur] else [])"
  by (simp add: ofType_def firedAlerts_def pairRules_def)

lemma ofType_mentalStatus_fired:
  "ofType ''Change in mental status'' (firedAlerts f prev cur) =
     (if isAlertLabel (mentalStatus prev) \<and> \<not> isAlertLabel (mentalStatus cur)
      then [alertMentalStatus cur] else [])"
  by (simp add: ofType_def firedAlerts_def pairRules_def)

lemma alertsByPair_three:
  "alertsByPair f [r0, r1, r2] = firedAlerts f r0 r1 @ firedAlerts f r1 r2"
  by (simp add: alertsByPair_def upt_rec)

lemma length_firedAlerts: "length (firedAlerts f prev cur) \<le> 5"
  by (simp add: firedAlerts_def pairRules_def)

lemma calculateQSOFA_string:
  "calculateQSOFA \<lparr>respiratoryRate = rr, systolicBP = sbp, mentalStatus = JStr s\<rparr> =
     (let n = (if js_ge rr (Fin 22) then 1 else 0) + (if js_le sbp (Fin 100) then 1 else 0)
              + (if s \<noteq> [] \<and> \<not> equalsIgnoreCase s ''alert'' then 1 else 0)
      in Inr \<lparr>score = n,
              riskLabel = (if n = 0 then ''Low screening score''
                           else if n = 1 then ''Intermediate screening score''
                           else ''High screening score''),
              reasons =
                (if js_ge rr (Fin 22) then [''Respiratory rate at or above 22 breaths/min'']
                 else [])
                @ (if js_le sbp (Fin 100) then [''Systolic blood pressure at or below 100 mmHg'']
                   else [])
                @ (if s \<noteq> [] \<and> \<not> equalsIgnoreCase s ''alert''
                   then [''Altered mental status (not fully alert)''] else [])\<rparr>)"
  by (simp add: calculateQSOFA_def mentalCriterion_string)

subsection \<open>Comparisons, alert types and short histories\<close>

lemma js_ge_not_lt: "js_ge x (Fin a) \<Longrightarrow> \<not> js_lt x (Fin a)"
  by (cases x) (simp_all add: js_ge_def)

lemma js_le_not_gt: "js_le x (Fin a) \<Longrightarrow> \<not> js_gt x (Fin a)"
  by (cases x) (simp_all add: js_gt_def)

lemma ofType_alertsByPair_empty:
  assumes "\<And>i. 0 < i \<Longrightarrow> i < length readings \<Longrightarrow>
              ofType t (firedAlerts f (readings ! (i - 1)) (readings ! i)) = []"
  shows "ofType t (alertsByPair f readings) = []"
  using assms by (simp add: alertsByPair_def ofType_def filter_concat)

lemma firedAlerts_escalating_highRisk:
  "filter (\<lambda>a. type a = ''Risk escalating'' \<or> type a = ''High risk screening score'')
      (firedAlerts f prev cur) =
     (if js_gt (qsofaScore cur) (qsofaScore prev) then [alertRiskEscalating f prev cur] else [])
     @ (if js_ge (qsofaScore cur) (Fin 2) then [alertHighRisk cur] else [])"
  by (simp add: firedAlerts_def pairRules_def)

lemma summaryAlerts_short: "summaryAlerts f [] = Inr []" "summaryAlerts f [r] = Inr []"
  by (simp_all add: summaryAlerts_def)

lemma summaryAlerts_absent_first:
  "mentalStatus r0 = JUndefined \<or> mentalStatus r0 = JNull \<Longrightarrow>
   summaryAlerts f (r0 # r1 # rest) = Inl TypeError"
  by (auto simp: summaryAlerts_def pairAlerts_def mentalStatusChanged_def Let_def)

section \<open>The scorer\<close>

text \<open>
  Claim C1. For every numeric respiratory rate, every numeric systolic pressure and every
  string as mental status, \<open>calculateQSOFA\<close> returns a result; its score is the number of
  its reasons and is one of 0, 1, 2, 3.
\<close>

theorem score_counts_reasons:
  "\<exists>res. calculateQSOFA \<lparr>respiratoryRate = rr, systolicBP = sbp, mentalStatus = JStr s\<rparr> = Inr res
     \<and> score res = length (reasons res) \<and> score res \<in> {0, 1, 2, 3}"
  by (simp add: calculateQSOFA_def mentalCriterion_def)

text \<open>
  Claim C7. For a string \<open>s\<close> as mental status the third criterion adds one point, and
  its reason, exactly when \<open>s\<close> is not empty and does not equal \<open>alert\<close> without regard
  to case. An absent (\<open>undefined\<close>, \<open>null\<close>) or empty mental status adds nothing. Two
  spellings of \<open>alert\<close> that differ in case only give the same result.
\<close>

theorem mental_status_criterion:
  "(\<exists>res. calculateQSOFA \<lparr>respiratoryRate = rr, systolicBP = sbp, mentalStatus = JStr s\<rparr> = Inr res \<and>
      score res = (if js_ge rr (Fin 22) then 1 else 0) + (if js_le sbp (Fin 100) then 1 else 0)
                  + (if s \<noteq> [] \<and> \<not> equalsIgnoreCase s ''alert'' then 1 else 0) \<and>
      reasons res =
        (if js_ge rr (Fin 22) then [''Respiratory rate at or above 22 breaths/min''] else [])
        @ (if js_le sbp (Fin 100) then [''Systolic blood pressure at or below 100 mmHg''] else [])
        @ (if s \<noteq> [] \<and> \<not> equalsIgnoreCase s ''alert''
           then [''Altered mental status (not fully alert)''] else []))
   \<and> (v = JUndefined \<or> v = JNull \<or> v = JStr [] \<longrightarrow>
        (\<exists>res. calculateQSOFA \<lparr>respiratoryRate = rr, systolicBP = sbp, mentalStatus = v\<rparr> = Inr res \<and>
           score res = (if js_ge rr (Fin 22) then 1 else 0) + (if js_le sbp (Fin 100) then 1 else 0) \<and>
           reasons res =
             (if js_ge rr (Fin 22) then [''Respiratory rate at or above 22 breaths/min''] else [])
             @ (if js_le sbp (Fin 100) then [''Systolic blood pressure at or below 100 mmHg'']
                else [])))
   \<and> (equalsIgnoreCase s ''alert'' \<and> equalsIgnoreCase s' ''alert'' \<longrightarrow>
        calculateQSOFA \<lparr>respiratoryRate = rr, systolicBP = sbp, mentalStatus = JStr s\<rparr> =
        calculateQSOFA \<lparr>respiratoryRate = rr, systolicBP = sbp, mentalStatus = JStr s'\<rparr>)"
proof (intro conjI impI)
  show "\<exists>res. calculateQSOFA \<lparr>respiratoryRate = rr, systolicBP = sbp, mentalStatus = JStr s\<rparr> = Inr res \<and>
      score res = (if js_ge rr (Fin 22) then 1 else 0) + (if js_le sbp (Fin 100) then 1 else 0)
                  + (if s \<noteq> [] \<and> \<not> equalsIgnoreCase s ''alert'' then 1 else 0) \<and>
      reasons res =
        (if js_ge rr (Fin 22) then [''Respiratory rate at or above 22 breaths/min''] else [])
        @ (if js_le sbp (Fin 100) then [''Systolic blood pressure at or below 100 mmHg''] else [])
        @ (if s \<noteq> [] \<and> \<not> equalsIgnoreCase s ''alert''
           then [''Altered mental status (not fully alert)''] else [])"
    by (simp add: calculateQSOFA_string Let_def)
next
  assume "v = JUndefined \<or> v = JNull \<or> v = JStr []"
  then have "mentalCriterion v = Inr False"
    by (auto simp: mentalCriterion_def)
  then show "\<exists>res. calculateQSOFA \<lparr>respiratoryRate = rr, systolicBP = sbp, mentalStatus = v\<rparr> = Inr res \<and>
           score res = (if js_ge rr (Fin 22) then 1 else 0) + (if js_le sbp (Fin 100) then 1 else 0) \<and>
           reasons res =
             (if js_ge rr (Fin 22) then [''Respiratory rate at or above 22 breaths/min''] else [])
             @ (if js_le sbp (Fin 100) then [''Systolic blood pressure at or below 100 mmHg'']
                else [])"
    by (simp add: calculateQSOFA_def)
next
  assume "equalsIgnoreCase s ''alert'' \<and> equalsIgnoreCase s' ''alert''"
  then show "calculateQSOFA \<lparr>respiratoryRate = rr, systolicBP = sbp, mentalStatus = JStr s\<rparr> =
        calculateQSOFA \<lparr>respiratoryRate = rr, systolicBP = sbp, mentalStatus = JStr s'\<rparr>"
    by (simp add: calculateQSOFA_string)
qed

text \<open>
  The theorem at \<open>ALERT\<close> and \<open>alert\<close>, and at an absent mental status, for a respiratory
  rate of 24 and a systolic pressure of 115.
\<close>

theorem mental_status_criterion_witness:
  "equalsIgnoreCase ''ALERT'' ''alert'' \<and> equalsIgnoreCase ''alert'' ''alert'' \<and>
   calculateQSOFA \<lparr>respiratoryRate = Fin 24, systolicBP = Fin 115, mentalStatus = JStr ''ALERT''\<rparr> =
   calculateQSOFA \<lparr>respiratoryRate = Fin 24, systolicBP = Fin 115, mentalStatus = JStr ''alert''\<rparr> \<and>
   (\<exists>res. calculateQSOFA \<lparr>respiratoryRate = Fin 24, systolicBP = Fin 115, mentalStatus = JUndefined\<rparr> = Inr res \<and>
      score res = 1 \<and> reasons res = [''Respiratory rate at or above 22 breaths/min''])"
proof -
  have h: "equalsIgnoreCase ''ALERT'' ''alert'' \<and> equalsIgnoreCase ''alert'' ''alert''"
    by (simp add: equalsIgnoreCase_def sameLetter_def isUpper_def)
  note inst = mental_status_criterion [of "Fin 24" "Fin 115" "''ALERT''" JUndefined "''alert''"]
  from inst h have "calculateQSOFA \<lparr>respiratoryRate = Fin 24, systolicBP = Fin 115, mentalStatus = JStr ''ALERT''\<rparr> =
   calculateQSOFA \<lparr>respiratoryRate = Fin 24, systolicBP = Fin 115, mentalStatus = JStr ''alert''\<rparr>"
    by blast
  moreover from inst have "\<exists>res. calculateQSOFA \<lparr>respiratoryRate = Fin 24, systolicBP = Fin 115, mentalStatus = JUndefined\<rparr> = Inr res \<and>
      score res = 1 \<and> reasons res = [''Respiratory rate at or above 22 breaths/min'']"
    by (simp add: js_ge_def)
  ultimately show ?thesis
    using h by blast
qed

text \<open>
  Claim C8. The thresholds include their boundary: a respiratory rate of 22 with a
  systolic pressure of 100 and mental status \<open>Alert\<close> scores 2 with the two reasons in
  the order of evaluation, and 21 with 101 and \<open>Alert\<close> scores 0 with the label
  \<open>Low screening score\<close>.
\<close>

theorem thresholds_inclusive:
  "calculateQSOFA \<lparr>respiratoryRate = Fin 22, systolicBP = Fin 100, mentalStatus = JStr ''Alert''\<rparr> =
     Inr \<lparr>score = 2, riskLabel = ''High screening score'',
          reasons = [''Respiratory rate at or above 22 breaths/min'',
                     ''Systolic blood pressure at or below 100 mmHg'']\<rparr>
   \<and> calculateQSOFA \<lparr>respiratoryRate = Fin 21, systolicBP = Fin 101, mentalStatus = JStr ''Alert''\<rparr> =
     Inr \<lparr>score = 0, riskLabel = ''Low screening score'', reasons = []\<rparr>"
  by (simp add: calculateQSOFA_def mentalCriterion_def toLowerCase_def lowerChar_def js_ge_def
        char_of_eq_iff)

text \<open>
  Claim C9. The risk label of the result is determined by its score alone: 0 gives
  \<open>Low screening score\<close>, 1 gives \<open>Intermediate screening score\<close>, and 2 or more gives
  \<open>High screening score\<close>.
\<close>

theorem risk_label_from_score:
  "\<exists>res. calculateQSOFA \<lparr>respiratoryRate = rr, systolicBP = sbp, mentalStatus = JStr s\<rparr> = Inr res
     \<and> riskLabel res = (if score res = 0 then ''Low screening score''
                         else if score res = 1 then ''Intermediate screening score''
                         else ''High screening score'')"
  by (simp add: calculateQSOFA_def mentalCriterion_def)

section \<open>The trend alerts\<close>

text \<open>
  Claim C2, as amended. The loop body has five rules, not four, and each appends at most
  one alert: for a pair of readings whose mental statuses are strings it returns and
  appends at most five alerts.
\<close>

theorem pair_appends_at_most_five:
  "isString (mentalStatus prev) \<and> isString (mentalStatus cur) \<longrightarrow>
     (\<exists>new. pairAlerts f prev cur acc = Inr (acc @ new) \<and> length new \<le> 5)"
  using pairAlerts_strings [of prev cur f acc] length_firedAlerts [of f prev cur] by blast

text \<open>
  The theorem at the first and the last reading of the demonstration scenario.
\<close>

theorem pair_appends_at_most_five_witness:
  "let a = \<lparr>respiratoryRate = Fin 18, systolicBP = Fin 115, mentalStatus = JStr ''Alert'',
       reading.timestamp = 0, qsofaScore = Fin 0, qsofaRiskLabel = ''Low screening score'',
       qsofaReasons = []\<rparr>;
      b = \<lparr>respiratoryRate = Fin 24, systolicBP = Fin 100, mentalStatus = JStr ''Drowsy'',
       reading.timestamp = 2700000, qsofaScore = Fin 3, qsofaRiskLabel = ''High screening score'',
       qsofaReasons = [''Respiratory rate at or above 22 breaths/min'',
                      ''Systolic blood pressure at or below 100 mmHg'',
                      ''Altered mental status (not fully alert)'']\<rparr>
   in (isString (mentalStatus a) \<and> isString (mentalStatus b)) \<and>
      (\<exists>new. pairAlerts wholeNumberToString a b [] = Inr ([] @ new) \<and> length new \<le> 5)"
proof -
  let ?a = "\<lparr>respiratoryRate = Fin 18, systolicBP = Fin 115, mentalStatus = JStr ''Alert'',
       reading.timestamp = 0, qsofaScore = Fin 0, qsofaRiskLabel = ''Low screening score'',
       qsofaReasons = []\<rparr>"
  let ?b = "\<lparr>respiratoryRate = Fin 24, systolicBP = Fin 100, mentalStatus = JStr ''Drowsy'',
       reading.timestamp = 2700000, qsofaScore = Fin 3, qsofaRiskLabel = ''High screening score'',
       qsofaReasons = [''Respiratory rate at or above 22 breaths/min'',
                      ''Systolic blood pressure at or below 100 mmHg'',
                      ''Altered mental status (not fully alert)'']\<rparr>"
  have h: "isString (mentalStatus ?a) \<and> isString (mentalStatus ?b)"
    by simp
  from pair_appends_at_most_five [of ?a ?b wholeNumberToString "[]"] h
  have "\<exists>new. pairAlerts wholeNumberToString ?a ?b [] = Inr ([] @ new) \<and> length new \<le> 5"
    by blast
  with h show ?thesis
    unfolding Let_def by blast
qed

text \<open>
  The bound of four fails. From a reading with respiratory rate 18, systolic pressure 115,
  mental status \<open>Alert\<close> and score 0 to a reading with 24, 100, \<open>Drowsy\<close> and score 3
  every rule holds: the loop body appends five alerts to the empty list, and they are the
  alerts of the history made of these two readings.
\<close>

theorem pair_appends_five_counterexample:
  "map_sum id length
     (pairAlerts wholeNumberToString
        \<lparr>respiratoryRate = Fin 18, systolicBP = Fin 115, mentalStatus = JStr ''Alert'',
          reading.timestamp = 0, qsofaScore = Fin 0, qsofaRiskLabel = ''Low screening score'',
          qsofaReasons = []\<rparr>
        \<lparr>respiratoryRate = Fin 24, systolicBP = Fin 100, mentalStatus = JStr ''Drowsy'',
          reading.timestamp = 2700000, qsofaScore = Fin 3, qsofaRiskLabel = ''High screening score'',
          qsofaReasons = [''Respiratory rate at or above 22 breaths/min'',
                         ''Systolic blood pressure at or below 100 mmHg'',
                         ''Altered mental status (not fully alert)'']\<rparr> []) = Inr 5
   \<and> map_sum id length
     (summaryAlerts wholeNumberToString
        [\<lparr>respiratoryRate = Fin 18, systolicBP = Fin 115, mentalStatus = JStr ''Alert'',
          reading.timestamp = 0, qsofaScore = Fin 0, qsofaRiskLabel = ''Low screening score'',
          qsofaReasons = []\<rparr>,
         \<lparr>respiratoryRate = Fin 24, systolicBP = Fin 100, mentalStatus = JStr ''Drowsy'',
          reading.timestamp = 2700000, qsofaScore = Fin 3, qsofaRiskLabel = ''High screening score'',
          qsofaReasons = [''Respiratory rate at or above 22 breaths/min'',
                         ''Systolic blood pressure at or below 100 mmHg'',
                         ''Altered mental status (not fully alert)'']\<rparr>]) = Inr 5
   \<and> map_sum id (map type)
     (summaryAlerts wholeNumberToString
        [\<lparr>respiratoryRate = Fin 18, systolicBP = Fin 115, mentalStatus = JStr ''Alert'',
          reading.timestamp = 0, qsofaScore = Fin 0, qsofaRiskLabel = ''Low screening score'',
          qsofaReasons = []\<rparr>,
         \<lparr>respiratoryRate = Fin 24, systolicBP = Fin 100, mentalStatus = JStr ''Drowsy'',
          reading.timestamp = 2700000, qsofaScore = Fin 3, qsofaRiskLabel = ''High screening score'',
          qsofaReasons = [''Respiratory rate at or above 22 breaths/min'',
                         ''Systolic blood pressure at or below 100 mmHg'',
                         ''Altered mental status (not fully alert)'']\<rparr>]) =
     Inr [''Risk escalating'', ''High risk screening score'',
          ''Respiratory rate threshold crossed'', ''Blood pressure threshold crossed'',
          ''Change in mental status'']"
  by code_simp

text \<open>
  Claim C3. The alert \<open>High risk screening score\<close> is a level check. For a pair of
  readings whose mental statuses are strings, the loop body returns, and among the alerts
  it appends there is one of that type when the current score is at least 2 and none
  otherwise, whatever the previous score. Three readings of score 2 give two such alerts,
  one for each pair.
\<close>

theorem high_risk_level_check:
  "(isString (mentalStatus prev) \<and> isString (mentalStatus cur) \<longrightarrow>
      (\<exists>new. pairAlerts f prev cur acc = Inr (acc @ new) \<and>
         ofType ''High risk screening score'' new =
           (if js_ge (qsofaScore cur) (Fin 2) then [alertHighRisk cur] else [])))
   \<and> (isString (mentalStatus r0) \<and> isString (mentalStatus r1) \<and> isString (mentalStatus r2) \<and>
      qsofaScore r0 = Fin 2 \<and> qsofaScore r1 = Fin 2 \<and> qsofaScore r2 = Fin 2 \<longrightarrow>
      (\<exists>alerts. summaryAlerts f [r0, r1, r2] = Inr alerts \<and>
         ofType ''High risk screening score'' alerts = [alertHighRisk r1, alertHighRisk r2]))"
proof (intro conjI impI)
  assume "isString (mentalStatus prev) \<and> isString (mentalStatus cur)"
  then have "pairAlerts f prev cur acc = Inr (acc @ firedAlerts f prev cur)"
    by (simp add: pairAlerts_strings)
  then show "\<exists>new. pairAlerts f prev cur acc = Inr (acc @ new) \<and>
         ofType ''High risk screening score'' new =
           (if js_ge (qsofaScore cur) (Fin 2) then [alertHighRisk cur] else [])"
    using ofType_highRisk_fired by blast
next
  assume a: "isString (mentalStatus r0) \<and> isString (mentalStatus r1) \<and> isString (mentalStatus r2) \<and>
      qsofaScore r0 = Fin 2 \<and> qsofaScore r1 = Fin 2 \<and> qsofaScore r2 = Fin 2"
  then have "summaryAlerts f [r0, r1, r2] = Inr (alertsByPair f [r0, r1, r2])"
    by (simp add: summaryAlerts_strings)
  moreover have "ofType ''High risk screening score'' (alertsByPair f [r0, r1, r2]) =
      [alertHighRisk r1, alertHighRisk r2]"
    using a by (simp add: alertsByPair_three ofType_append ofType_highRisk_fired js_ge_def)
  ultimately show "\<exists>alerts. summaryAlerts f [r0, r1, r2] = Inr alerts \<and>
         ofType ''High risk screening score'' alerts = [alertHighRisk r1, alertHighRisk r2]"
    by blast
qed

text \<open>
  The theorem at three readings of score 2, taken a quarter of an hour apart.
\<close>

theorem high_risk_level_check_witness:
  "let a = \<lparr>respiratoryRate = Fin 24, systolicBP = Fin 100, mentalStatus = JStr ''Alert'',
              reading.timestamp = 0, qsofaScore = Fin 2,
              qsofaRiskLabel = ''High screening score'',
              qsofaReasons = [''Respiratory rate at or above 22 breaths/min'',
                              ''Systolic blood pressure at or below 100 mmHg'']\<rparr>;
       b = \<lparr>respiratoryRate = Fin 24, systolicBP = Fin 100, mentalStatus = JStr ''Alert'',
              reading.timestamp = 900000, qsofaScore = Fin 2,
              qsofaRiskLabel = ''High screening score'',
              qsofaReasons = [''Respiratory rate at or above 22 breaths/min'',
                              ''Systolic blood pressure at or below 100 mmHg'']\<rparr>;
       c = \<lparr>respiratoryRate = Fin 24, systolicBP = Fin 100, mentalStatus = JStr ''Alert'',
              reading.timestamp = 1800000, qsofaScore = Fin 2,
              qsofaRiskLabel = ''High screening score'',
              qsofaReasons = [''Respiratory rate at or above 22 breaths/min'',
                              ''Systolic blood pressure at or below 100 mmHg'']\<rparr>
   in (isString (mentalStatus a) \<and> isString (mentalStatus b) \<and> isString (mentalStatus c) \<and>
       qsofaScore a = Fin 2 \<and> qsofaScore b = Fin 2 \<and> qsofaScore c = Fin 2) \<and>
      (\<exists>new. pairAlerts wholeNumberToString a b [] = Inr ([] @ new) \<and>
         ofType ''High risk screening score'' new = [alertHighRisk b]) \<and>
      (\<exists>alerts. summaryAlerts wholeNumberToString [a, b, c] = Inr alerts \<and>
         ofType ''High risk screening score'' alerts = [alertHighRisk b, alertHighRisk c])"
proof -
  let ?a = "\<lparr>respiratoryRate = Fin 24, systolicBP = Fin 100, mentalStatus = JStr ''Alert'',
      reading.timestamp = 0, qsofaScore = Fin 2,
      qsofaRiskLabel = ''High screening score'',
      qsofaReasons = [''Respiratory rate at or above 22 breaths/min'',
                      ''Systolic blood pressure at or below 100 mmHg'']\<rparr>"
  let ?b = "\<lparr>respiratoryRate = Fin 24, systolicBP = Fin 100, mentalStatus = JStr ''Alert'',
              reading.timestamp = 900000, qsofaScore = Fin 2,
              qsofaRiskLabel = ''High screening score'',
              qsofaReasons = [''Respiratory rate at or above 22 breaths/min'',
                              ''Systolic blood pressure at or below 100 mmHg'']\<rparr>"
  let ?c = "\<lparr>respiratoryRate = Fin 24, systolicBP = Fin 100, mentalStatus = JStr ''Alert'',
              reading.timestamp = 1800000, qsofaScore = Fin 2,
              qsofaRiskLabel = ''High screening score'',
              qsofaReasons = [''Respiratory rate at or above 22 breaths/min'',
                              ''Systolic blood pressure at or below 100 mmHg'']\<rparr>"
  have h: "isString (mentalStatus ?a) \<and> isString (mentalStatus ?b) \<and> isString (mentalStatus ?c) \<and>
      qsofaScore ?a = Fin 2 \<and> qsofaScore ?b = Fin 2 \<and> qsofaScore ?c = Fin 2"
    by simp
  note inst = high_risk_level_check [of ?a ?b wholeNumberToString "[]" ?a ?b ?c]
  from inst h have "\<exists>new. pairAlerts wholeNumberToString ?a ?b [] = Inr ([] @ new) \<and>
         ofType ''High risk screening score'' new = [alertHighRisk ?b]"
    by (simp add: js_ge_def)
  moreover from inst h have "\<exists>alerts. summaryAlerts wholeNumberToString [?a, ?b, ?c] = Inr alerts \<and>
         ofType ''High risk screening score'' alerts = [alertHighRisk ?b, alertHighRisk ?c]"
    by blast
  ultimately show ?thesis
    unfolding Let_def using h by blast
qed

text \<open>
  Claim C4. For a history whose mental statuses are strings the handler returns the
  alerts of the pairs \<open>(readings[i - 1], readings[i])\<close>, \<open>i = 1, ..., n - 1\<close>, one pair
  after the other, and within a pair in the order in which the rules are declared. An
  empty history and a history of one reading give no alert. Readings with scores 0, 1, 2
  give, among the alerts of types \<open>Risk escalating\<close> and \<open>High risk screening score\<close>,
  the escalation from 0 to 1, the escalation from 1 to 2 and the high-risk alert of the
  third reading, in this order.
\<close>

theorem alerts_concatenated_by_pair:
  "(list_all (\<lambda>r. isString (mentalStatus r)) readings \<longrightarrow>
      summaryAlerts f readings = Inr (alertsByPair f readings))
   \<and> summaryAlerts f [] = Inr [] \<and> summaryAlerts f [r] = Inr []
   \<and> (isString (mentalStatus r0) \<and> isString (mentalStatus r1) \<and> isString (mentalStatus r2) \<and>
      qsofaScore r0 = Fin 0 \<and> qsofaScore r1 = Fin 1 \<and> qsofaScore r2 = Fin 2 \<longrightarrow>
      (\<exists>alerts. summaryAlerts f [r0, r1, r2] = Inr alerts \<and>
         filter (\<lambda>a. type a = ''Risk escalating'' \<or> type a = ''High risk screening score'') alerts =
           [alertRiskEscalating f r0 r1, alertRiskEscalating f r1 r2, alertHighRisk r2]))"
proof (intro conjI impI)
  assume "list_all (\<lambda>r. isString (mentalStatus r)) readings"
  then show "summaryAlerts f readings = Inr (alertsByPair f readings)"
    by (simp add: summaryAlerts_strings list_all_iff)
next
  show "summaryAlerts f [] = Inr []" "summaryAlerts f [r] = Inr []"
    by (rule summaryAlerts_short)+
next
  assume a: "isString (mentalStatus r0) \<and> isString (mentalStatus r1) \<and> isString (mentalStatus r2) \<and>
      qsofaScore r0 = Fin 0 \<and> qsofaScore r1 = Fin 1 \<and> qsofaScore r2 = Fin 2"
  then have "summaryAlerts f [r0, r1, r2] = Inr (alertsByPair f [r0, r1, r2])"
    by (simp add: summaryAlerts_strings)
  moreover have "filter (\<lambda>a. type a = ''Risk escalating'' \<or> type a = ''High risk screening score'')
       (alertsByPair f [r0, r1, r2]) =
           [alertRiskEscalating f r0 r1, alertRiskEscalating f r1 r2, alertHighRisk r2]"
    using a by (simp add: alertsByPair_three firedAlerts_escalating_highRisk js_ge_def js_gt_def)
  ultimately show "\<exists>alerts. summaryAlerts f [r0, r1, r2] = Inr alerts \<and>
         filter (\<lambda>a. type a = ''Risk escalating'' \<or> type a = ''High risk screening score'') alerts =
           [alertRiskEscalating f r0 r1, alertRiskEscalating f r1 r2, alertHighRisk r2]"
    by blast
qed

text \<open>
  The theorem at three readings of scores 0, 1, 2. The levels of the alerts show that the
  order is not one of severity: a \<open>high\<close> alert stands before a \<open>warning\<close>.
\<close>

theorem alerts_concatenated_by_pair_witness:
  "let a = \<lparr>respiratoryRate = Fin 18, systolicBP = Fin 115, mentalStatus = JStr ''Alert'',
       reading.timestamp = 0, qsofaScore = Fin 0, qsofaRiskLabel = ''Low screening score'',
       qsofaReasons = []\<rparr>;
      b = \<lparr>respiratoryRate = Fin 22, systolicBP = Fin 105, mentalStatus = JStr ''Alert'',
       reading.timestamp = 900000, qsofaScore = Fin 1, qsofaRiskLabel = ''Intermediate screening score'',
       qsofaReasons = [''Respiratory rate at or above 22 breaths/min'']\<rparr>;
      c = \<lparr>respiratoryRate = Fin 24, systolicBP = Fin 100, mentalStatus = JStr ''Alert'',
       reading.timestamp = 1800000, qsofaScore = Fin 2, qsofaRiskLabel = ''High screening score'',
       qsofaReasons = [''Respiratory rate at or above 22 breaths/min'',
                      ''Systolic blood pressure at or below 100 mmHg'']\<rparr>
   in list_all (\<lambda>r. isString (mentalStatus r)) [a, b, c] \<and>
      (qsofaScore a = Fin 0 \<and> qsofaScore b = Fin 1 \<and> qsofaScore c = Fin 2) \<and>
      summaryAlerts wholeNumberToString [a, b, c] =
        Inr (alertsByPair wholeNumberToString [a, b, c]) \<and>
      map type (alertsByPair wholeNumberToString [a, b, c]) =
        [''Risk escalating'', ''Respiratory rate threshold crossed'',
         ''Risk escalating'', ''High risk screening score'', ''Blood pressure threshold crossed''] \<and>
      map level (alertsByPair wholeNumberToString [a, b, c]) =
        [''warning'', ''warning'', ''warning'', ''high'', ''warning''] \<and>
      (\<exists>alerts. summaryAlerts wholeNumberToString [a, b, c] = Inr alerts \<and>
         filter (\<lambda>x. type x = ''Risk escalating'' \<or> type x = ''High risk screening score'') alerts =
           [alertRiskEscalating wholeNumberToString a b,
            alertRiskEscalating wholeNumberToString b c, alertHighRisk c])"
proof -
  let ?a = "\<lparr>respiratoryRate = Fin 18, systolicBP = Fin 115, mentalStatus = JStr ''Alert'',
       reading.timestamp = 0, qsofaScore = Fin 0, qsofaRiskLabel = ''Low screening score'',
       qsofaReasons = []\<rparr>"
  let ?b = "\<lparr>respiratoryRate = Fin 22, systolicBP = Fin 105, mentalStatus = JStr ''Alert'',
       reading.timestamp = 900000, qsofaScore = Fin 1, qsofaRiskLabel = ''Intermediate screening score'',
       qsofaReasons = [''Respiratory rate at or above 22 breaths/min'']\<rparr>"
  let ?c = "\<lparr>respiratoryRate = Fin 24, systolicBP = Fin 100, mentalStatus = JStr ''Alert'',
       reading.timestamp = 1800000, qsofaScore = Fin 2, qsofaRiskLabel = ''High screening score'',
       qsofaReasons = [''Respiratory rate at or above 22 breaths/min'',
                      ''Systolic blood pressure at or below 100 mmHg'']\<rparr>"
  have h: "list_all (\<lambda>r. isString (mentalStatus r)) [?a, ?b, ?c]"
    by simp
  have s: "isString (mentalStatus ?a) \<and> isString (mentalStatus ?b) \<and> isString (mentalStatus ?c) \<and>
      qsofaScore ?a = Fin 0 \<and> qsofaScore ?b = Fin 1 \<and> qsofaScore ?c = Fin 2"
    by simp
  note inst = alerts_concatenated_by_pair [of "[?a, ?b, ?c]" wholeNumberToString ?a ?a ?b ?c]
  from inst h have e: "summaryAlerts wholeNumberToString [?a, ?b, ?c] =
        Inr (alertsByPair wholeNumberToString [?a, ?b, ?c])"
    by blast
  from inst s have x: "\<exists>alerts. summaryAlerts wholeNumberToString [?a, ?b, ?c] = Inr alerts \<and>
         filter (\<lambda>x. type x = ''Risk escalating'' \<or> type x = ''High risk screening score'') alerts =
           [alertRiskEscalating wholeNumberToString ?a ?b,
            alertRiskEscalating wholeNumberToString ?b ?c, alertHighRisk ?c]"
    by blast
  have t: "map type (alertsByPair wholeNumberToString [?a, ?b, ?c]) =
        [''Risk escalating'', ''Respiratory rate threshold crossed'',
         ''Risk escalating'', ''High risk screening score'', ''Blood pressure threshold crossed'']"
    by code_simp
  have l: "map level (alertsByPair wholeNumberToString [?a, ?b, ?c]) =
        [''warning'', ''warning'', ''warning'', ''high'', ''warning'']"
    by code_simp
  from h s e x t l show ?thesis
    unfolding Let_def by blast
qed

text \<open>
  Claim C5. The alerts for respiratory rate and blood pressure are edge triggers. For a
  pair of readings whose mental statuses are strings, the loop body appends one alert
  \<open>Respiratory rate threshold crossed\<close> when the current rate is at least 22 and
  the previous rate is below 22, and none otherwise; one alert
  \<open>Blood pressure threshold crossed\<close> when the current pressure is at most 100 and the
  previous pressure is above 100, and none otherwise. In particular there is none when the
  previous value is already past the threshold, and none on the way back. A history whose
  rates are all at least 22 has no respiratory-rate alert, and one whose pressures are all
  at most 100 has no blood-pressure alert.
\<close>

theorem threshold_alerts_edge_triggered:
  "(isString (mentalStatus prev) \<and> isString (mentalStatus cur) \<longrightarrow>
      (\<exists>new. pairAlerts f prev cur acc = Inr (acc @ new) \<and>
         ofType ''Respiratory rate threshold crossed'' new =
           (if js_ge (respiratoryRate cur) (Fin 22) \<and> js_lt (respiratoryRate prev) (Fin 22)
            then [alertRespiratoryRate cur] else []) \<and>
         ofType ''Blood pressure threshold crossed'' new =
           (if js_le (systolicBP cur) (Fin 100) \<and> js_gt (systolicBP prev) (Fin 100)
            then [alertBloodPressure cur] else []) \<and>
         (js_ge (respiratoryRate prev) (Fin 22) \<or> js_lt (respiratoryRate cur) (Fin 22) \<longrightarrow>
            ofType ''Respiratory rate threshold crossed'' new = []) \<and>
         (js_le (systolicBP prev) (Fin 100) \<or> js_gt (systolicBP cur) (Fin 100) \<longrightarrow>
            ofType ''Blood pressure threshold crossed'' new = [])))
   \<and> (list_all (\<lambda>r. isString (mentalStatus r) \<and> js_ge (respiratoryRate r) (Fin 22)) readings \<longrightarrow>
      (\<exists>alerts. summaryAlerts f readings = Inr alerts \<and>
         ofType ''Respiratory rate threshold crossed'' alerts = []))
   \<and> (list_all (\<lambda>r. isString (mentalStatus r) \<and> js_le (systolicBP r) (Fin 100)) readings \<longrightarrow>
      (\<exists>alerts. summaryAlerts f readings = Inr alerts \<and>
         ofType ''Blood pressure threshold crossed'' alerts = []))"
proof (intro conjI impI)
  assume "isString (mentalStatus prev) \<and> isString (mentalStatus cur)"
  then have "pairAlerts f prev cur acc = Inr (acc @ firedAlerts f prev cur)"
    by (simp add: pairAlerts_strings)
  moreover have "js_ge (respiratoryRate prev) (Fin 22) \<or> js_lt (respiratoryRate cur) (Fin 22) \<longrightarrow>
      ofType ''Respiratory rate threshold crossed'' (firedAlerts f prev cur) = []"
    using js_ge_not_lt [of "respiratoryRate prev" 22] js_ge_not_lt [of "respiratoryRate cur" 22]
    by (auto simp: ofType_respiratoryRate_fired)
  moreover have "js_le (systolicBP prev) (Fin 100) \<or> js_gt (systolicBP cur) (Fin 100) \<longrightarrow>
      ofType ''Blood pressure threshold crossed'' (firedAlerts f prev cur) = []"
    using js_le_not_gt [of "systolicBP prev" 100] js_le_not_gt [of "systolicBP cur" 100]
    by (auto simp: ofType_bloodPressure_fired)
  ultimately show "\<exists>new. pairAlerts f prev cur acc = Inr (acc @ new) \<and>
         ofType ''Respiratory rate threshold crossed'' new =
           (if js_ge (respiratoryRate cur) (Fin 22) \<and> js_lt (respiratoryRate prev) (Fin 22)
            then [alertRespiratoryRate cur] else []) \<and>
         ofType ''Blood pressure threshold crossed'' new =
           (if js_le (systolicBP cur) (Fin 100) \<and> js_gt (systolicBP prev) (Fin 100)
            then [alertBloodPressure cur] else []) \<and>
         (js_ge (respiratoryRate prev) (Fin 22) \<or> js_lt (respiratoryRate cur) (Fin 22) \<longrightarrow>
            ofType ''Respiratory rate threshold crossed'' new = []) \<and>
         (js_le (systolicBP prev) (Fin 100) \<or> js_gt (systolicBP cur) (Fin 100) \<longrightarrow>
            ofType ''Blood pressure threshold crossed'' new = [])"
    using ofType_respiratoryRate_fired [of f prev cur] ofType_bloodPressure_fired [of f prev cur]
    by blast
next
  assume a: "list_all (\<lambda>r. isString (mentalStatus r) \<and> js_ge (respiratoryRate r) (Fin 22)) readings"
  then have "summaryAlerts f readings = Inr (alertsByPair f readings)"
    by (simp add: summaryAlerts_strings list_all_iff)
  moreover have "ofType ''Respiratory rate threshold crossed'' (alertsByPair f readings) = []"
  proof (rule ofType_alertsByPair_empty)
    fix i assume "0 < i" "i < length readings"
    with a have "js_ge (respiratoryRate (readings ! (i - 1))) (Fin 22)"
      by (simp add: list_all_length)
    then show "ofType ''Respiratory rate threshold crossed''
        (firedAlerts f (readings ! (i - 1)) (readings ! i)) = []"
      by (simp add: ofType_respiratoryRate_fired js_ge_not_lt)
  qed
  ultimately show "\<exists>alerts. summaryAlerts f readings = Inr alerts \<and>
         ofType ''Respiratory rate threshold crossed'' alerts = []"
    by blast
next
  assume a: "list_all (\<lambda>r. isString (mentalStatus r) \<and> js_le (systolicBP r) (Fin 100)) readings"
  then have "summaryAlerts f readings = Inr (alertsByPair f readings)"
    by (simp add: summaryAlerts_strings list_all_iff)
  moreover have "ofType ''Blood pressure threshold crossed'' (alertsByPair f readings) = []"
  proof (rule ofType_alertsByPair_empty)
    fix i assume "0 < i" "i < length readings"
    with a have "js_le (systolicBP (readings ! (i - 1))) (Fin 100)"
      by (simp add: list_all_length)
    then show "ofType ''Blood pressure threshold crossed''
        (firedAlerts f (readings ! (i - 1)) (readings ! i)) = []"
      by (simp add: ofType_bloodPressure_fired js_le_not_gt)
  qed
  ultimately show "\<exists>alerts. summaryAlerts f readings = Inr alerts \<and>
         ofType ''Blood pressure threshold crossed'' alerts = []"
    by blast
qed

text \<open>
  The theorem at three readings with respiratory rate 25, at the pair from (18, 115) to
  (24, 100), and at the same pair in reverse.
\<close>

theorem threshold_alerts_edge_triggered_witness:
  "let a = \<lparr>respiratoryRate = Fin 25, systolicBP = Fin 110, mentalStatus = JStr ''Alert'',
       reading.timestamp = 0, qsofaScore = Fin 1, qsofaRiskLabel = ''Intermediate screening score'',
       qsofaReasons = [''Respiratory rate at or above 22 breaths/min'']\<rparr>;
      b = \<lparr>respiratoryRate = Fin 25, systolicBP = Fin 110, mentalStatus = JStr ''Alert'',
       reading.timestamp = 900000, qsofaScore = Fin 1, qsofaRiskLabel = ''Intermediate screening score'',
       qsofaReasons = [''Respiratory rate at or above 22 breaths/min'']\<rparr>;
      c = \<lparr>respiratoryRate = Fin 25, systolicBP = Fin 110, mentalStatus = JStr ''Alert'',
       reading.timestamp = 1800000, qsofaScore = Fin 1, qsofaRiskLabel = ''Intermediate screening score'',
       qsofaReasons = [''Respiratory rate at or above 22 breaths/min'']\<rparr>;
      p = \<lparr>respiratoryRate = Fin 18, systolicBP = Fin 115, mentalStatus = JStr ''Alert'',
       reading.timestamp = 0, qsofaScore = Fin 0, qsofaRiskLabel = ''Low screening score'',
       qsofaReasons = []\<rparr>;
      q = \<lparr>respiratoryRate = Fin 24, systolicBP = Fin 100, mentalStatus = JStr ''Alert'',
       reading.timestamp = 900000, qsofaScore = Fin 2, qsofaRiskLabel = ''High screening score'',
       qsofaReasons = [''Respiratory rate at or above 22 breaths/min'',
                      ''Systolic blood pressure at or below 100 mmHg'']\<rparr>
   in list_all (\<lambda>r. isString (mentalStatus r) \<and> js_ge (respiratoryRate r) (Fin 22)) [a, b, c] \<and>
      (\<exists>alerts. summaryAlerts wholeNumberToString [a, b, c] = Inr alerts \<and>
         ofType ''Respiratory rate threshold crossed'' alerts = []) \<and>
      (\<exists>new. pairAlerts wholeNumberToString p q [] = Inr ([] @ new) \<and>
         ofType ''Respiratory rate threshold crossed'' new = [alertRespiratoryRate q] \<and>
         ofType ''Blood pressure threshold crossed'' new = [alertBloodPressure q]) \<and>
      (\<exists>new. pairAlerts wholeNumberToString q p [] = Inr ([] @ new) \<and>
         ofType ''Respiratory rate threshold crossed'' new = [] \<and>
         ofType ''Blood pressure threshold crossed'' new = [])"
proof -
  let ?a = "\<lparr>respiratoryRate = Fin 25, systolicBP = Fin 110, mentalStatus = JStr ''Alert'',
       reading.timestamp = 0, qsofaScore = Fin 1, qsofaRiskLabel = ''Intermediate screening score'',
       qsofaReasons = [''Respiratory rate at or above 22 breaths/min'']\<rparr>"
  let ?b = "\<lparr>respiratoryRate = Fin 25, systolicBP = Fin 110, mentalStatus = JStr ''Alert'',
       reading.timestamp = 900000, qsofaScore = Fin 1, qsofaRiskLabel = ''Intermediate screening score'',
       qsofaReasons = [''Respiratory rate at or above 22 breaths/min'']\<rparr>"
  let ?c = "\<lparr>respiratoryRate = Fin 25, systolicBP = Fin 110, mentalStatus = JStr ''Alert'',
       reading.timestamp = 1800000, qsofaScore = Fin 1, qsofaRiskLabel = ''Intermediate screening score'',
       qsofaReasons = [''Respiratory rate at or above 22 breaths/min'']\<rparr>"
  let ?p = "\<lparr>respiratoryRate = Fin 18, systolicBP = Fin 115, mentalStatus = JStr ''Alert'',
       reading.timestamp = 0, qsofaScore = Fin 0, qsofaRiskLabel = ''Low screening score'',
       qsofaReasons = []\<rparr>"
  let ?q = "\<lparr>respiratoryRate = Fin 24, systolicBP = Fin 100, mentalStatus = JStr ''Alert'',
       reading.timestamp = 900000, qsofaScore = Fin 2, qsofaRiskLabel = ''High screening score'',
       qsofaReasons = [''Respiratory rate at or above 22 breaths/min'',
                      ''Systolic blood pressure at or below 100 mmHg'']\<rparr>"
  have h: "list_all (\<lambda>r. isString (mentalStatus r) \<and> js_ge (respiratoryRate r) (Fin 22)) [?a, ?b, ?c]"
    by (simp add: js_ge_def)
  from threshold_alerts_edge_triggered [of ?p ?q wholeNumberToString "[]" "[?a, ?b, ?c]"] h
  have x: "\<exists>alerts. summaryAlerts wholeNumberToString [?a, ?b, ?c] = Inr alerts \<and>
         ofType ''Respiratory rate threshold crossed'' alerts = []"
    by blast
  from threshold_alerts_edge_triggered [of ?p ?q wholeNumberToString "[]" "[]"]
  have y: "\<exists>new. pairAlerts wholeNumberToString ?p ?q [] = Inr ([] @ new) \<and>
         ofType ''Respiratory rate threshold crossed'' new = [alertRespiratoryRate ?q] \<and>
         ofType ''Blood pressure threshold crossed'' new = [alertBloodPressure ?q]"
    by (simp add: js_ge_def js_gt_def)
  from threshold_alerts_edge_triggered [of ?q ?p wholeNumberToString "[]" "[]"]
  have z: "\<exists>new. pairAlerts wholeNumberToString ?q ?p [] = Inr ([] @ new) \<and>
         ofType ''Respiratory rate threshold crossed'' new = [] \<and>
         ofType ''Blood pressure threshold crossed'' new = []"
    by (auto simp: js_ge_def js_gt_def)
  from h x y z show ?thesis
    unfolding Let_def by blast
qed

text \<open>
  Claim C6. For a pair of readings with strings \<open>p\<close> and \<open>c\<close> as mental statuses, the
  loop body appends one alert \<open>Change in mental status\<close> when \<open>p\<close> equals \<open>alert\<close>
  without regard to case and \<open>c\<close> does not, and none otherwise; so there is none for a
  change back to \<open>alert\<close>. The mental statuses \<open>Alert\<close>, \<open>Confused\<close>, \<open>Alert\<close> give
  exactly one such alert, that of the second reading.
\<close>

theorem mental_status_alert_on_deterioration:
  "(mentalStatus prev = JStr p \<and> mentalStatus cur = JStr c \<longrightarrow>
      (\<exists>new. pairAlerts f prev cur acc = Inr (acc @ new) \<and>
         ofType ''Change in mental status'' new =
           (if equalsIgnoreCase p ''alert'' \<and> \<not> equalsIgnoreCase c ''alert''
            then [alertMentalStatus cur] else [])))
   \<and> (mentalStatus r0 = JStr ''Alert'' \<and> mentalStatus r1 = JStr ''Confused'' \<and>
      mentalStatus r2 = JStr ''Alert'' \<longrightarrow>
      (\<exists>alerts. summaryAlerts f [r0, r1, r2] = Inr alerts \<and>
         ofType ''Change in mental status'' alerts = [alertMentalStatus r1]))"
proof (intro conjI impI)
  assume a: "mentalStatus prev = JStr p \<and> mentalStatus cur = JStr c"
  then have "pairAlerts f prev cur acc = Inr (acc @ firedAlerts f prev cur)"
    by (simp add: pairAlerts_strings)
  moreover have "ofType ''Change in mental status'' (firedAlerts f prev cur) =
           (if equalsIgnoreCase p ''alert'' \<and> \<not> equalsIgnoreCase c ''alert''
            then [alertMentalStatus cur] else [])"
    using a by (simp add: ofType_mentalStatus_fired)
  ultimately show "\<exists>new. pairAlerts f prev cur acc = Inr (acc @ new) \<and>
         ofType ''Change in mental status'' new =
           (if equalsIgnoreCase p ''alert'' \<and> \<not> equalsIgnoreCase c ''alert''
            then [alertMentalStatus cur] else [])"
    by blast
next
  assume a: "mentalStatus r0 = JStr ''Alert'' \<and> mentalStatus r1 = JStr ''Confused'' \<and>
      mentalStatus r2 = JStr ''Alert''"
  then have "summaryAlerts f [r0, r1, r2] = Inr (alertsByPair f [r0, r1, r2])"
    by (simp add: summaryAlerts_strings)
  moreover have "ofType ''Change in mental status'' (alertsByPair f [r0, r1, r2]) =
      [alertMentalStatus r1]"
    using a by (simp add: alertsByPair_three ofType_append ofType_mentalStatus_fired
        equalsIgnoreCase_def sameLetter_def isUpper_def)
  ultimately show "\<exists>alerts. summaryAlerts f [r0, r1, r2] = Inr alerts \<and>
         ofType ''Change in mental status'' alerts = [alertMentalStatus r1]"
    by blast
qed

text \<open>
  The theorem at the mental statuses \<open>Alert\<close>, \<open>Confused\<close>, \<open>Alert\<close>, and at the pair
  from \<open>Confused\<close> back to \<open>Alert\<close>.
\<close>

theorem mental_status_alert_on_deterioration_witness:
  "let a = \<lparr>respiratoryRate = Fin 18, systolicBP = Fin 115, mentalStatus = JStr ''Alert'',
       reading.timestamp = 0, qsofaScore = Fin 0, qsofaRiskLabel = ''Low screening score'',
       qsofaReasons = []\<rparr>;
      b = \<lparr>respiratoryRate = Fin 18, systolicBP = Fin 115, mentalStatus = JStr ''Confused'',
       reading.timestamp = 900000, qsofaScore = Fin 1, qsofaRiskLabel = ''Intermediate screening score'',
       qsofaReasons = [''Altered mental status (not fully alert)'']\<rparr>;
      c = \<lparr>respiratoryRate = Fin 18, systolicBP = Fin 115, mentalStatus = JStr ''Alert'',
       reading.timestamp = 1800000, qsofaScore = Fin 0, qsofaRiskLabel = ''Low screening score'',
       qsofaReasons = []\<rparr>
   in (mentalStatus a = JStr ''Alert'' \<and> mentalStatus b = JStr ''Confused'' \<and>
       mentalStatus c = JStr ''Alert'') \<and>
      (\<exists>alerts. summaryAlerts wholeNumberToString [a, b, c] = Inr alerts \<and>
         ofType ''Change in mental status'' alerts = [alertMentalStatus b]) \<and>
      (\<exists>new. pairAlerts wholeNumberToString b c [] = Inr ([] @ new) \<and>
         ofType ''Change in mental status'' new = [])"
proof -
  let ?a = "\<lparr>respiratoryRate = Fin 18, systolicBP = Fin 115, mentalStatus = JStr ''Alert'',
       reading.timestamp = 0, qsofaScore = Fin 0, qsofaRiskLabel = ''Low screening score'',
       qsofaReasons = []\<rparr>"
  let ?b = "\<lparr>respiratoryRate = Fin 18, systolicBP = Fin 115, mentalStatus = JStr ''Confused'',
       reading.timestamp = 900000, qsofaScore = Fin 1, qsofaRiskLabel = ''Intermediate screening score'',
       qsofaReasons = [''Altered mental status (not fully alert)'']\<rparr>"
  let ?c = "\<lparr>respiratoryRate = Fin 18, systolicBP = Fin 115, mentalStatus = JStr ''Alert'',
       reading.timestamp = 1800000, qsofaScore = Fin 0, qsofaRiskLabel = ''Low screening score'',
       qsofaReasons = []\<rparr>"
  have h: "mentalStatus ?a = JStr ''Alert'' \<and> mentalStatus ?b = JStr ''Confused'' \<and>
       mentalStatus ?c = JStr ''Alert''"
    by simp
  have g: "mentalStatus ?b = JStr ''Confused'' \<and> mentalStatus ?c = JStr ''Alert''"
    by simp
  note inst = mental_status_alert_on_deterioration
    [of ?b "''Confused''" ?c "''Alert''" wholeNumberToString "[]" ?a ?b ?c]
  from inst h have x: "\<exists>alerts. summaryAlerts wholeNumberToString [?a, ?b, ?c] = Inr alerts \<and>
         ofType ''Change in mental status'' alerts = [alertMentalStatus ?b]"
    by blast
  have n: "\<not> equalsIgnoreCase ''Confused'' ''alert''"
    by (simp add: equalsIgnoreCase_def)
  from inst g have "\<exists>new. pairAlerts wholeNumberToString ?b ?c [] = Inr ([] @ new) \<and>
         ofType ''Change in mental status'' new =
           (if equalsIgnoreCase ''Confused'' ''alert'' \<and> \<not> equalsIgnoreCase ''Alert'' ''alert''
            then [alertMentalStatus ?c] else [])"
    by blast
  with n have y: "\<exists>new. pairAlerts wholeNumberToString ?b ?c [] = Inr ([] @ new) \<and>
         ofType ''Change in mental status'' new = []"
    by simp
  from h x y show ?thesis
    unfolding Let_def by blast
qed

text \<open>
  Claim C10. The loop calls \<open>toLowerCase\<close> on the mental statuses without a guard. The
  handler returns a list of alerts for every history whose mental statuses are strings.
  A history of at least two readings whose first mental status is absent (\<open>undefined\<close> or
  \<open>null\<close>) ends in a TypeError instead, while \<open>calculateQSOFA\<close> returns normally on
  that first reading.
\<close>

theorem trend_unguarded_mental_status:
  "(list_all (\<lambda>r. isString (mentalStatus r)) readings \<longrightarrow>
      (\<exists>alerts. summaryAlerts f readings = Inr alerts))
   \<and> (mentalStatus r0 = JUndefined \<or> mentalStatus r0 = JNull \<longrightarrow>
      summaryAlerts f (r0 # r1 # rest) = Inl TypeError \<and>
      (\<exists>res. calculateQSOFA r0 = Inr res))"
proof (intro conjI impI)
  assume "list_all (\<lambda>r. isString (mentalStatus r)) readings"
  then show "\<exists>alerts. summaryAlerts f readings = Inr alerts"
    by (simp add: summaryAlerts_strings list_all_iff)
next
  assume "mentalStatus r0 = JUndefined \<or> mentalStatus r0 = JNull"
  then show "summaryAlerts f (r0 # r1 # rest) = Inl TypeError"
    by (rule summaryAlerts_absent_first)
next
  assume "mentalStatus r0 = JUndefined \<or> mentalStatus r0 = JNull"
  then have "mentalCriterion (mentalStatus r0) = Inr False"
    by (auto simp: mentalCriterion_def)
  then show "\<exists>res. calculateQSOFA r0 = Inr res"
    by (simp add: calculateQSOFA_def Let_def split: prod.splits)
qed

text \<open>
  The theorem at a history of two readings with mental status \<open>Alert\<close>, and at the same
  history with the mental status of the first reading missing.
\<close>

theorem trend_unguarded_mental_status_witness:
  "let a = \<lparr>respiratoryRate = Fin 24, systolicBP = Fin 100, mentalStatus = JUndefined,
       reading.timestamp = 0, qsofaScore = Fin 2, qsofaRiskLabel = ''High screening score'',
       qsofaReasons = [''Respiratory rate at or above 22 breaths/min'',
                      ''Systolic blood pressure at or below 100 mmHg'']\<rparr>;
      b = \<lparr>respiratoryRate = Fin 24, systolicBP = Fin 100, mentalStatus = JStr ''Alert'',
       reading.timestamp = 900000, qsofaScore = Fin 2, qsofaRiskLabel = ''High screening score'',
       qsofaReasons = [''Respiratory rate at or above 22 breaths/min'',
                      ''Systolic blood pressure at or below 100 mmHg'']\<rparr>
   in list_all (\<lambda>r. isString (mentalStatus r)) [b, b] \<and>
      (\<exists>alerts. summaryAlerts wholeNumberToString [b, b] = Inr alerts) \<and>
      mentalStatus a = JUndefined \<and>
      summaryAlerts wholeNumberToString [a, b] = Inl TypeError \<and>
      (\<exists>res. calculateQSOFA a = Inr res)"
proof -
  let ?a = "\<lparr>respiratoryRate = Fin 24, systolicBP = Fin 100, mentalStatus = JUndefined,
       reading.timestamp = 0, qsofaScore = Fin 2, qsofaRiskLabel = ''High screening score'',
       qsofaReasons = [''Respiratory rate at or above 22 breaths/min'',
                      ''Systolic blood pressure at or below 100 mmHg'']\<rparr>"
  let ?b = "\<lparr>respiratoryRate = Fin 24, systolicBP = Fin 100, mentalStatus = JStr ''Alert'',
       reading.timestamp = 900000, qsofaScore = Fin 2, qsofaRiskLabel = ''High screening score'',
       qsofaReasons = [''Respiratory rate at or above 22 breaths/min'',
                      ''Systolic blood pressure at or below 100 mmHg'']\<rparr>"
  have h: "list_all (\<lambda>r. isString (mentalStatus r)) [?b, ?b]"
    by simp
  have u: "mentalStatus ?a = JUndefined"
    by simp
  from trend_unguarded_mental_status [of "[?b, ?b]" wholeNumberToString ?a ?b "[]"] h
  have x: "\<exists>alerts. summaryAlerts wholeNumberToString [?b, ?b] = Inr alerts"
    by blast
  from trend_unguarded_mental_status [of "[?b, ?b]" wholeNumberToString ?a ?b "[]"] u
  have y: "summaryAlerts wholeNumberToString [?a, ?b] = Inl TypeError \<and>
      (\<exists>res. calculateQSOFA ?a = Inr res)"
    by blast
  from h u x y show ?thesis
    unfolding Let_def by blast
qed

end
